theory Spec2Isabelle
  imports Complex_Main "HOL-Library.Sublist"
begin

section \<open>JavaScript values used by the screens\<close>

text \<open>
  A JavaScript string is modelled as a \<^typ>\<open>string\<close> whose characters are the code units
  \<open>0..255\<close> (the Latin-1 range); strings with larger code units are outside the model.
  On that range \<open>String.prototype.toLowerCase\<close> moves \<open>A..Z\<close> and the accented capitals
  \<open>U+00C0..U+00DE\<close> (without the multiplication sign \<open>U+00D7\<close>) up by 32 and keeps every
  other code unit.
\<close>

definition toLowerCase_char :: "char \<Rightarrow> char" where
  "toLowerCase_char c =
     (let n = (of_char c :: nat)
      in if (65 \<le> n \<and> n \<le> 90) \<or> (192 \<le> n \<and> n \<le> 222 \<and> n \<noteq> 215)
         then char_of (n + 32) else c)"

definition toLowerCase :: "string \<Rightarrow> string" where
  "toLowerCase s = map toLowerCase_char s"

text \<open>\<open>s.endsWith(search)\<close>: the last \<open>search.length\<close> code units of \<open>s\<close> are \<open>search\<close>.\<close>

definition endsWith :: "string \<Rightarrow> string \<Rightarrow> bool" where
  "endsWith s search =
     (length search \<le> length s \<and> drop (length s - length search) s = search)"

text \<open>
  \<open>s.trim()\<close> removes white space and line terminators from both ends; below 256 these are
  TAB, LF, VT, FF, CR, SPACE and the no-break space \<open>U+00A0\<close>.
\<close>

definition isWhiteSpace :: "char \<Rightarrow> bool" where
  "isWhiteSpace c = ((of_char c :: nat) \<in> {9, 10, 11, 12, 13, 32, 160})"

definition trim :: "string \<Rightarrow> string" where
  "trim s = rev (dropWhile isWhiteSpace (rev (dropWhile isWhiteSpace s)))"

text \<open>The decimal text of a length, as a template literal prints it.\<close>

fun string_of_nat :: "nat \<Rightarrow> string" where
  "string_of_nat n =
     (if n < 10 then [char_of (48 + n)]
      else string_of_nat (n div 10) @ [char_of (48 + n mod 10)])"

declare string_of_nat.simps [simp del]

text \<open>
  A JavaScript number: a finite value (taken as a real; the model compares numbers and
  never computes with them), \<open>NaN\<close>, or an infinity.
\<close>

datatype jsnumber = Num real | NaN | PosInfinity | NegInfinity

text \<open>\<open>x >= c\<close> for a finite constant \<open>c\<close>: false for \<open>NaN\<close>.\<close>

fun js_ge :: "jsnumber \<Rightarrow> real \<Rightarrow> bool" where
  "js_ge (Num x) c = (c \<le> x)"
| "js_ge NaN c = False"
| "js_ge PosInfinity c = True"
| "js_ge NegInfinity c = False"

text \<open>
  A browser \<open>File\<close>: the upload page reads its \<open>name\<close> and \<open>size\<close>; the dropzone also reads
  its MIME \<open>type\<close>.
\<close>

record jsfile =
  file_name :: string
  file_type :: string
  file_size :: nat

section \<open>What a handler does besides updating component state\<close>

record create_body =
  startup_name :: string
  contact_email :: "string option"

datatype request_body =
  Json create_body
| FormData "(string \<times> jsfile) list"

datatype effect =
  PreventDefault
| ToastError string
| ToastSuccess string
| ToastInfo string
| ConsoleError string
| AxiosPost string request_body
| AxiosGet string
| NavigateAfter nat string

text \<open>
  Both pages read \<open>BACKEND_URL\<close> from the environment variable \<open>REACT_APP_BACKEND_URL\<close>
  and build \<open>API\<close> as that value followed by \<open>/api\<close>; an unset variable prints as
  \<open>undefined\<close>.
\<close>

definition API :: "string option \<Rightarrow> string" where
  "API BACKEND_URL = (case BACKEND_URL of None \<Rightarrow> ''undefined'' | Some url \<Rightarrow> url) @ ''/api''"

section \<open>UploadPage.jsx\<close>

record upload_state =
  startupName :: string
  contactEmail :: string
  files :: "jsfile list"
  uploading :: bool
  progress :: jsnumber

definition initial_upload_state :: upload_state where
  "initial_upload_state =
     \<lparr>startupName = [], contactEmail = [], files = [], uploading = False, progress = Num 0\<rparr>"

text \<open>The predicate handed to \<open>acceptedFiles.filter\<close> in \<open>onDrop\<close>.\<close>

definition validFile :: "jsfile \<Rightarrow> bool" where
  "validFile file =
     (endsWith (toLowerCase (file_name file)) ''.pdf''
      \<or> endsWith (toLowerCase (file_name file)) ''.docx'')"

definition onDrop :: "jsfile list \<Rightarrow> upload_state \<Rightarrow> upload_state \<times> effect list" where
  "onDrop acceptedFiles st =
     (let validFiles = filter validFile acceptedFiles
      in (st\<lparr>files := files st @ validFiles\<rparr>,
          (if length validFiles \<noteq> length acceptedFiles
           then [ToastError ''Only PDF and DOCX files are accepted''] else [])
          @ [ToastSuccess (string_of_nat (length validFiles) @ '' file(s) added'')]))"

text \<open>\<open>prev.filter((_, i) => i !== index)\<close>: a filter that sees each element's position.\<close>

definition filter_indexed :: "('a \<Rightarrow> nat \<Rightarrow> bool) \<Rightarrow> 'a list \<Rightarrow> 'a list" where
  "filter_indexed p xs = map snd (filter (\<lambda>(i, x). p x i) (enumerate 0 xs))"

definition removeFile :: "nat \<Rightarrow> upload_state \<Rightarrow> upload_state \<times> effect list" where
  "removeFile index st =
     (st\<lparr>files := filter_indexed (\<lambda>_ i. i \<noteq> index) (files st)\<rparr>, [ToastInfo ''File removed''])"

subsection \<open>The dropzone in front of onDrop\<close>




text \<open>
  The property the specification words as "the name, lowercased, ends with .pdf or .docx",
  with "ends with" read as the library's \<^const>\<open>suffix\<close>.
\<close>

definition has_allowed_extension :: "jsfile \<Rightarrow> bool" where
  "has_allowed_extension f =
     (suffix ''.pdf'' (toLowerCase (file_name f)) \<or> suffix ''.docx'' (toLowerCase (file_name f)))"

subsection \<open>handleSubmit\<close>

text \<open>
  A rejected axios call throws an error object. The handler reads
  \<open>error.response?.data?.detail\<close>: each step of the chain may be missing. Only string
  details are modelled.
\<close>

datatype error_data = ErrorData (detail: "string option")
datatype error_response = ErrorResponse (data: "error_data option")
datatype axios_error = AxiosError (response: "error_response option")

definition error_detail :: "axios_error \<Rightarrow> string option" where
  "error_detail error = Option.bind (response error) (\<lambda>r. Option.bind (data r) detail)"

text \<open>\<open>x || fallback\<close> on a string that may be undefined: the empty string is falsy too.\<close>

definition or_else :: "string option \<Rightarrow> string \<Rightarrow> string" where
  "or_else x fallback = (case x of None \<Rightarrow> fallback | Some s \<Rightarrow> if s = [] then fallback else s)"

text \<open>
  What the server does with the two calls of one submission: the creation call returns
  an assessment id or fails; the upload call reports progress and then succeeds or fails.
  At each progress event the page stores \<open>Math.round(50 + (loaded * 40) / total)\<close>; the
  arithmetic is that of IEEE doubles and is not modelled: the exchange lists the values the
  expression took (a number, \<open>NaN\<close> or an infinity), one per event.
\<close>

record upload_exchange =
  percentCompleted :: "jsnumber list"
  upload_result :: "axios_error + unit"

definition catch_block :: "axios_error \<Rightarrow> upload_state \<Rightarrow> upload_state \<times> effect list" where
  "catch_block error st =
     (st\<lparr>uploading := False, progress := Num 0\<rparr>,
      [ConsoleError ''Upload error:'',
       ToastError (or_else (error_detail error) ''Failed to process documents'')])"

definition handleSubmit ::
  "string option \<Rightarrow> axios_error + string \<Rightarrow> upload_exchange \<Rightarrow> upload_state
     \<Rightarrow> upload_state \<times> effect list" where
  "handleSubmit BACKEND_URL create_reply upload_reply st =
     (if trim (startupName st) = [] then
        (st, [PreventDefault, ToastError ''Please enter your startup name''])
      else if length (files st) = 0 then
        (st, [PreventDefault, ToastError ''Please upload at least one document''])
      else
        let st1 = st\<lparr>uploading := True, progress := Num 10\<rparr>;
            create_call = AxiosPost (API BACKEND_URL @ ''/assessments'')
              (Json \<lparr>startup_name = startupName st,
                     contact_email =
                       (if contactEmail st = [] then None else Some (contactEmail st))\<rparr>)
        in case create_reply of
             Inl error \<Rightarrow>
               (let (st', effs) = catch_block error st1
                in (st', [PreventDefault, create_call] @ effs))
           | Inr assessmentId \<Rightarrow>
               let st2 = st1\<lparr>progress := Num 30\<rparr>;
                   formData = map (\<lambda>file. (''files'', file)) (files st);
                   st3 = st2\<lparr>progress := Num 50\<rparr>;
                   upload_call =
                     AxiosPost (API BACKEND_URL @ ''/assessments/'' @ assessmentId @ ''/upload'')
                     (FormData formData);
                   st4 = fold (\<lambda>percent s. s\<lparr>progress := percent\<rparr>)
                     (percentCompleted upload_reply) st3
               in case upload_result upload_reply of
                    Inl error \<Rightarrow>
                      (let (st', effs) = catch_block error st4
                       in (st', [PreventDefault, create_call, upload_call] @ effs))
                  | Inr _ \<Rightarrow>
                      (st4\<lparr>progress := Num 100\<rparr>,
                       [PreventDefault, create_call, upload_call,
                        ToastSuccess ''Documents analyzed successfully!'',
                        NavigateAfter 500 (''/results/'' @ assessmentId)]))"

text \<open>Reading a trace of effects.\<close>

fun is_request :: "effect \<Rightarrow> bool" where
  "is_request (AxiosPost _ _) = True"
| "is_request (AxiosGet _) = True"
| "is_request _ = False"

fun is_navigation :: "effect \<Rightarrow> bool" where
  "is_navigation (NavigateAfter _ _) = True"
| "is_navigation _ = False"

fun is_error_toast :: "effect \<Rightarrow> bool" where
  "is_error_toast (ToastError _) = True"
| "is_error_toast _ = False"

section \<open>ResultsPage.jsx\<close>

record gap =
  severity :: string
  category :: string
  article_name :: string
  description :: string
  requirement :: string
  recommendation :: string

text \<open>
  The page reads these objects from the JSON of the reply. A field the page dereferences
  may be null or missing in a reply; such a field is an \<open>option\<close>, \<open>None\<close> when it is null
  or missing. Fields that are only printed are kept as they are.
\<close>

record expert =
  expert_name :: string
  specialization :: string
  contact :: string
  relevant_articles :: "string list option"

record program =
  program_name :: string
  program_description :: string
  duration :: string
  focus_areas :: "string list option"
  website :: string

record recommendations =
  experts :: "expert list option"
  programs :: "program list option"

record gap_counts =
  total_gaps :: nat
  high_severity_gaps :: nat
  medium_severity_gaps :: nat
  low_severity_gaps :: nat

record score = gap_counts +
  overall_score :: jsnumber
  readiness_level :: string
  category_scores :: "(string \<times> jsnumber) list option"

record assessment =
  assessment_startup_name :: string
  assessment_score :: "score option"
  gaps :: "gap list option"
  assessment_recommendations :: "recommendations option"

record results_state =
  loading :: bool
  result :: "assessment option"

definition initial_results_state :: results_state where
  "initial_results_state = \<lparr>loading = True, result = None\<rparr>"

definition fetchResults ::
  "string option \<Rightarrow> string \<Rightarrow> axios_error + assessment \<Rightarrow> results_state
     \<Rightarrow> results_state \<times> effect list" where
  "fetchResults BACKEND_URL assessmentId reply st =
     (let get_call = AxiosGet (API BACKEND_URL @ ''/assessments/'' @ assessmentId)
      in case reply of
           Inr response_data \<Rightarrow> (st\<lparr>result := Some response_data, loading := False\<rparr>, [get_call])
         | Inl error \<Rightarrow>
             (st\<lparr>loading := False\<rparr>,
              [get_call, ConsoleError ''Error fetching results:'',
               ToastError ''Failed to load assessment results'']))"

definition getSeverityColor :: "string \<Rightarrow> string" where
  "getSeverityColor sev =
     (if sev = ''HIGH'' then ''bg-red-100 text-red-800 border-red-200''
      else if sev = ''MEDIUM'' then ''bg-yellow-100 text-yellow-800 border-yellow-200''
      else if sev = ''LOW'' then ''bg-blue-100 text-blue-800 border-blue-200''
      else ''bg-gray-100 text-gray-800 border-gray-200'')"

definition getScoreColor :: "jsnumber \<Rightarrow> string" where
  "getScoreColor scoreValue =
     (if js_ge scoreValue 75 then ''text-green-600''
      else if js_ge scoreValue 50 then ''text-yellow-600''
      else ''text-red-600'')"

subsection \<open>What the page renders\<close>

text \<open>
  Reading a property of \<open>null\<close> or \<open>undefined\<close>, and \<open>Object.entries\<close> of either, throws a
  \<open>TypeError\<close>; the component has no error boundary, so the render fails with it.
\<close>

datatype js_error = TypeError

record gap_card =
  border_left_color :: string
  severity_badge_class :: string
  shown_gap :: gap

datatype gaps_tab_view = NoGapsDetected | GapCards "gap_card list"

record expert_card =
  shown_expert :: expert
  article_badges :: "string list"

record program_card =
  shown_program :: program
  focus_area_badges :: "string list"
  learn_more :: bool

text \<open>A section that is not rendered is \<open>None\<close>.\<close>

record recommendations_tab_view =
  experts_section :: "expert_card list option"
  programs_section :: "program_card list option"

record report_view =
  heading :: string
  overall_class :: string
  overall_text :: jsnumber
  readiness_badge :: string
  category_rows :: "(string \<times> string \<times> jsnumber) list"
  gaps_summary :: gap_counts
  gaps_tab :: gaps_tab_view
  recommendations_tab :: recommendations_tab_view

datatype page_view = LoadingView | NotFoundView | ReportView report_view

text \<open>\<open>items.map(card)\<close> where rendering a card may throw: the first failure ends the render.\<close>

fun map_cards :: "('a \<Rightarrow> js_error + 'b) \<Rightarrow> 'a list \<Rightarrow> js_error + 'b list" where
  "map_cards item_card [] = Inr []"
| "map_cards item_card (x # xs) =
     (case item_card x of
        Inl e \<Rightarrow> Inl e
      | Inr c \<Rightarrow> (case map_cards item_card xs of Inl e \<Rightarrow> Inl e | Inr cs \<Rightarrow> Inr (c # cs)))"

definition render_gaps_tab :: "gap list \<Rightarrow> gaps_tab_view" where
  "render_gaps_tab gs =
     (if length gs = 0 then NoGapsDetected
      else GapCards (map (\<lambda>g.
             \<lparr>border_left_color =
                (if severity g = ''HIGH'' then ''#dc2626''
                 else if severity g = ''MEDIUM'' then ''#ca8a04'' else ''#2563eb''),
              severity_badge_class = getSeverityColor (severity g),
              shown_gap = g\<rparr>) gs))"

text \<open>\<open>expert.relevant_articles.map(...)\<close> and \<open>program.focus_areas.map(...)\<close> are unguarded.\<close>

definition render_expert :: "expert \<Rightarrow> js_error + expert_card" where
  "render_expert e =
     (case relevant_articles e of
        None \<Rightarrow> Inl TypeError
      | Some articles \<Rightarrow>
          Inr \<lparr>shown_expert = e, article_badges = map (\<lambda>a. ''Article '' @ a) articles\<rparr>)"

definition render_program :: "program \<Rightarrow> js_error + program_card" where
  "render_program p =
     (case focus_areas p of
        None \<Rightarrow> Inl TypeError
      | Some areas \<Rightarrow>
          Inr \<lparr>shown_program = p, focus_area_badges = areas,
               learn_more = (website p \<noteq> ''N/A'')\<rparr>)"

text \<open>\<open>xs && xs.length > 0 && (section)\<close>: rendered only for a present, non-empty list.\<close>

definition render_section ::
  "('a \<Rightarrow> js_error + 'b) \<Rightarrow> 'a list option \<Rightarrow> js_error + 'b list option" where
  "render_section item_card xs =
     (case xs of
        None \<Rightarrow> Inr None
      | Some items \<Rightarrow>
          if length items > 0
          then (case map_cards item_card items of Inl e \<Rightarrow> Inl e | Inr cards \<Rightarrow> Inr (Some cards))
          else Inr None)"

definition render_recommendations_tab ::
  "recommendations \<Rightarrow> js_error + recommendations_tab_view" where
  "render_recommendations_tab recs =
     (case render_section render_expert (experts recs) of
        Inl e \<Rightarrow> Inl e
      | Inr experts_part \<Rightarrow>
          (case render_section render_program (programs recs) of
             Inl e \<Rightarrow> Inl e
           | Inr programs_part \<Rightarrow>
               Inr \<lparr>experts_section = experts_part, programs_section = programs_part\<rparr>))"

text \<open>
  The component body after the fetch: the loading screen, the not-found card, or the
  report. The report dereferences \<open>score\<close>, \<open>score.category_scores\<close>, \<open>gaps\<close> and
  \<open>recommendations\<close> without a guard, in this order, and never looks at \<open>status\<close>.
\<close>

definition render :: "results_state \<Rightarrow> js_error + page_view" where
  "render st =
     (if loading st then Inr LoadingView
      else case result st of
             None \<Rightarrow> Inr NotFoundView
           | Some r \<Rightarrow>
               (case assessment_score r of
                  None \<Rightarrow> Inl TypeError
                | Some sc \<Rightarrow>
               (case category_scores sc of
                  None \<Rightarrow> Inl TypeError
                | Some entries \<Rightarrow>
               (case gaps r of
                  None \<Rightarrow> Inl TypeError
                | Some gs \<Rightarrow>
               (case assessment_recommendations r of
                  None \<Rightarrow> Inl TypeError
                | Some recs \<Rightarrow>
               (case render_recommendations_tab recs of
                  Inl e \<Rightarrow> Inl e
                | Inr tab \<Rightarrow>
                    Inr (ReportView
                      \<lparr>heading = assessment_startup_name r,
                       overall_class = getScoreColor (overall_score sc),
                       overall_text = overall_score sc,
                       readiness_badge = readiness_level sc,
                       category_rows =
                         map (\<lambda>(c, categoryScore). (c, getScoreColor categoryScore, categoryScore))
                           entries,
                       gaps_summary = gap_counts.truncate sc,
                       gaps_tab = render_gaps_tab gs,
                       recommendations_tab = tab\<rparr>)))))))"

section \<open>The gap counts of the score record\<close>

text \<open>
  Modelled from the spec: the Gap Detector and the gap counts of the Scorer run behind the
  API and are not among the sources; the screens only display the four counts they
  receive. The specification gives a verdict per article with a three-valued coverage, one
  gap for every verdict that is not \<open>satisfied\<close>, in catalog order, each with a severity
  among HIGH, MEDIUM and LOW, and a score record that counts the gaps in total and by
  severity. How a severity is chosen is left to the catalog, so it is a parameter here.
\<close>

datatype coverage = satisfied | partial | absent

datatype severity_level = HIGH | MEDIUM | LOW

record article =
  article_id :: string
  article_category :: string
  article_requirement :: string

record verdict =
  verdict_article :: string
  verdict_coverage :: coverage
  evidence :: "string option"

record detected_gap =
  gap_article :: string
  gap_category :: string
  gap_severity :: severity_level
  gap_requirement :: string

text \<open>
  Modelled from the spec: the Gap Detector is missing from the sources. "For every verdict
  that is not satisfied, emit one Gap", "order of the emitted gap sequence follows catalog
  order", one verdict per article, every gap's article in the catalog.
\<close>

definition gap_detector ::
  "(coverage \<Rightarrow> article \<Rightarrow> severity_level) \<Rightarrow> article list \<Rightarrow> verdict list
     \<Rightarrow> detected_gap list" where
  "gap_detector severity_of catalog verdicts =
     concat (map (\<lambda>a.
       case find (\<lambda>v. verdict_article v = article_id a) verdicts of
         None \<Rightarrow> []
       | Some v \<Rightarrow>
           if verdict_coverage v = satisfied then []
           else [\<lparr>gap_article = article_id a, gap_category = article_category a,
                  gap_severity = severity_of (verdict_coverage v) a,
                  gap_requirement = article_requirement a\<rparr>]) catalog)"

text \<open>
  Modelled from the spec: the Scorer's gap counts are missing from the sources. The score
  record carries \<open>total_gaps\<close> and the number of gaps of each severity.
\<close>

definition count_severity :: "severity_level \<Rightarrow> detected_gap list \<Rightarrow> nat" where
  "count_severity s gs = length (filter (\<lambda>g. gap_severity g = s) gs)"

text \<open>
  Modelled from the spec: the gap fields of the score record, missing from the sources:
  "total_gaps, high/medium/low_severity_gaps (counts ...)".
\<close>

definition score_gap_counts :: "detected_gap list \<Rightarrow> gap_counts" where
  "score_gap_counts gs =
     \<lparr>total_gaps = length gs,
      high_severity_gaps = count_severity HIGH gs,
      medium_severity_gaps = count_severity MEDIUM gs,
      low_severity_gaps = count_severity LOW gs\<rparr>"

section \<open>Facts about the string functions\<close>

lemma endsWith_iff_suffix: "endsWith s search \<longleftrightarrow> suffix search s"
proof
  assume "endsWith s search"
  then have "drop (length s - length search) s = search"
    by (simp add: endsWith_def)
  then show "suffix search s"
    by (metis suffix_drop)
next
  assume "suffix search s"
  then obtain pre where "s = pre @ search"
    by (auto simp: suffix_def)
  then show "endsWith s search"
    by (simp add: endsWith_def)
qed

lemma validFile_iff: "validFile f \<longleftrightarrow> has_allowed_extension f"
  by (simp add: validFile_def has_allowed_extension_def endsWith_iff_suffix)

lemma set_filter_indexed: "set (filter_indexed p xs) \<subseteq> set xs"
proof
  fix x
  assume "x \<in> set (filter_indexed p xs)"
  then obtain i where "(i, x) \<in> set (enumerate 0 xs)"
    by (auto simp: filter_indexed_def)
  then show "x \<in> set xs"
    by (auto simp: in_set_enumerate_eq)
qed

lemma char_of_nat_eq_iff: "char_of (n::nat) = c \<longleftrightarrow> n mod 256 = of_char c"
  by (simp add: char_of_eq_iff take_bit_eq_mod)

lemma eq_char_of_nat_iff: "c = char_of (n::nat) \<longleftrightarrow> n mod 256 = of_char c"
  using char_of_nat_eq_iff [of n c] by auto

lemmas lower_eval = toLowerCase_def toLowerCase_char_def char_of_nat_eq_iff eq_char_of_nat_iff

section \<open>Facts about lists\<close>


lemma filter_indexed_offset:
  "map snd (filter (\<lambda>(i, x). i \<noteq> k + n) (enumerate k xs)) = take n xs @ drop (Suc n) xs"
proof (induction xs arbitrary: k n)
  case Nil
  show ?case by simp
next
  case (Cons x xs)
  show ?case
  proof (cases n)
    case 0
    have "filter (\<lambda>(i, y). i \<noteq> k) (enumerate (Suc k) xs) = enumerate (Suc k) xs"
      by (rule filter_True) (auto simp: in_set_enumerate_eq)
    with 0 show ?thesis by simp
  next
    case (Suc m)
    with Cons.IH [of "Suc k" m] show ?thesis by simp
  qed
qed

lemma filter_indexed_remove:
  "filter_indexed (\<lambda>_ i. i \<noteq> index) xs = take index xs @ drop (Suc index) xs"
  using filter_indexed_offset [of 0 index xs] by (simp add: filter_indexed_def)

section \<open>Facts about the form state\<close>

text \<open>Progress events change the \<open>progress\<close> field only.\<close>

lemma fold_progress:
  "\<exists>p. fold (\<lambda>percent s. s\<lparr>progress := f percent\<rparr>) evs st = st\<lparr>progress := p\<rparr>"
proof (induction evs arbitrary: st)
  case Nil
  have "st = st\<lparr>progress := progress st\<rparr>" by simp
  then show ?case by (metis fold_simps(1))
next
  case (Cons ev evs)
  from Cons.IH [of "st\<lparr>progress := f ev\<rparr>"] show ?case by auto
qed

text \<open>A submission never changes the pending-file list.\<close>

lemma handleSubmit_keeps_files:
  "files (fst (handleSubmit BACKEND_URL create_reply upload_reply st)) = files st"
proof -
  obtain p where folded:
    "fold (\<lambda>percent s. s\<lparr>progress := percent\<rparr>)
       (percentCompleted upload_reply) (st\<lparr>uploading := True, progress := Num 50\<rparr>)
     = st\<lparr>uploading := True, progress := Num 50\<rparr>\<lparr>progress := p\<rparr>"
    using fold_progress [of "\<lambda>percent. percent"] by blast
  show ?thesis
    by (simp add: handleSubmit_def catch_block_def Let_def folded split: sum.splits)
qed

section \<open>The pending-file list of the upload form\<close>








text \<open>
  Claim C9. The pending-file list holds only files whose lowercased name ends with \<open>.pdf\<close>
  or \<open>.docx\<close>: this holds initially and is preserved by \<open>onDrop\<close> and by \<open>removeFile\<close>,
  which does nothing but take out the element at the given position. These are the only
  handlers that change the list: a submission leaves it as it is.
\<close>

theorem pending_files_invariant:
  "(\<forall>f \<in> set (files initial_upload_state). has_allowed_extension f)
   \<and> ((\<forall>f \<in> set (files st). has_allowed_extension f) \<longrightarrow>
        (\<forall>f \<in> set (files (fst (onDrop acceptedFiles st))). has_allowed_extension f)
        \<and> (\<forall>f \<in> set (files (fst (removeFile index st))). has_allowed_extension f))
   \<and> files (fst (removeFile index st)) = take index (files st) @ drop (Suc index) (files st)
   \<and> files (fst (handleSubmit BACKEND_URL create_reply upload_reply st)) = files st"
proof -
  have init: "\<forall>f \<in> set (files initial_upload_state). has_allowed_extension f"
    by (simp add: initial_upload_state_def)
  have drop_ok: "\<forall>f \<in> set (files (fst (onDrop acceptedFiles st))). has_allowed_extension f"
    if "\<forall>f \<in> set (files st). has_allowed_extension f"
    using that by (auto simp: onDrop_def Let_def validFile_iff)
  have remove_ok: "\<forall>f \<in> set (files (fst (removeFile index st))). has_allowed_extension f"
    if "\<forall>f \<in> set (files st). has_allowed_extension f"
    using that set_filter_indexed [of "\<lambda>_ i. i \<noteq> index" "files st"]
    by (auto simp: removeFile_def)
  have remove_eq: "files (fst (removeFile index st)) = take index (files st) @ drop (Suc index) (files st)"
    by (simp add: removeFile_def filter_indexed_remove)
  from init drop_ok remove_ok remove_eq handleSubmit_keeps_files show ?thesis by blast
qed

theorem pending_files_invariant_witness:
  "list_all has_allowed_extension
     (files (initial_upload_state\<lparr>files := [\<lparr>file_name = ''policy.docx'', file_type = ''application/vnd.openxmlformats-officedocument.wordprocessingml.document'', file_size = 7\<rparr>]\<rparr>))
   \<and> list_all has_allowed_extension
     (files (fst (onDrop
        [\<lparr>file_name = ''notes.txt'', file_type = ''text/plain'', file_size = 3\<rparr>, \<lparr>file_name = ''Plan.PDF'', file_type = ''application/pdf'', file_size = 10\<rparr>]
        (initial_upload_state\<lparr>files := [\<lparr>file_name = ''policy.docx'', file_type = ''application/vnd.openxmlformats-officedocument.wordprocessingml.document'', file_size = 7\<rparr>]\<rparr>))))
   \<and> list_all has_allowed_extension
     (files (fst (removeFile 0
        (initial_upload_state\<lparr>files := [\<lparr>file_name = ''policy.docx'', file_type = ''application/vnd.openxmlformats-officedocument.wordprocessingml.document'', file_size = 7\<rparr>]\<rparr>))))"
proof -
  have is_docx: "has_allowed_extension \<lparr>file_name = ''policy.docx'', file_type = ''application/vnd.openxmlformats-officedocument.wordprocessingml.document'', file_size = 7\<rparr>"
    by (simp add: has_allowed_extension_def suffix_to_prefix lower_eval)
  have held: "\<forall>f \<in> set (files (initial_upload_state\<lparr>files := [\<lparr>file_name = ''policy.docx'', file_type = ''application/vnd.openxmlformats-officedocument.wordprocessingml.document'', file_size = 7\<rparr>]\<rparr>)).
      has_allowed_extension f"
    by (simp add: is_docx)
  show ?thesis
    unfolding list_all_iff
    using held
      pending_files_invariant [of "initial_upload_state\<lparr>files := [\<lparr>file_name = ''policy.docx'', file_type = ''application/vnd.openxmlformats-officedocument.wordprocessingml.document'', file_size = 7\<rparr>]\<rparr>"
        "[\<lparr>file_name = ''notes.txt'', file_type = ''text/plain'', file_size = 3\<rparr>, \<lparr>file_name = ''Plan.PDF'', file_type = ''application/pdf'', file_size = 10\<rparr>]" 0]
    by blast
qed

section \<open>Submitting the upload form\<close>

text \<open>
  Claim C1. For every submission with a non-blank startup name and a non-empty file list,
  the network requests and navigations of \<open>handleSubmit\<close>, in the order they happen, are:
  first the POST to \<open>/assessments\<close> under the API root with body \<open>{startup_name,
  contact_email}\<close>, the email being null when the field is empty; then, when that call
  returned an id, the POST of the selected files to \<open>/assessments/{id}/upload\<close> with that
  id; then, only when the upload call succeeded, the navigation to \<open>/results/{id}\<close> for
  the same id. A failed call ends the sequence.
\<close>

theorem handleSubmit_call_sequence:
  assumes "trim (startupName st) \<noteq> []" and "files st \<noteq> []"
  shows "filter (\<lambda>e. is_request e \<or> is_navigation e)
           (snd (handleSubmit BACKEND_URL create_reply upload_reply st)) =
         AxiosPost (API BACKEND_URL @ ''/assessments'')
           (Json \<lparr>startup_name = startupName st,
                  contact_email = (if contactEmail st = [] then None else Some (contactEmail st))\<rparr>)
         # (case create_reply of
              Inl _ \<Rightarrow> []
            | Inr assessmentId \<Rightarrow>
                AxiosPost (API BACKEND_URL @ ''/assessments/'' @ assessmentId @ ''/upload'')
                  (FormData (map (Pair ''files'') (files st)))
                # (case upload_result upload_reply of
                     Inl _ \<Rightarrow> []
                   | Inr _ \<Rightarrow> [NavigateAfter 500 (''/results/'' @ assessmentId)]))"
  using assms
  by (simp add: handleSubmit_def catch_block_def Let_def split: sum.splits)

theorem handleSubmit_call_sequence_witness:
  "trim ''Acme Pay'' \<noteq> []
   \<and> filter (\<lambda>e. is_request e \<or> is_navigation e)
       (snd (handleSubmit (Some ''http://localhost:8001'') (Inr ''a1'')
               \<lparr>percentCompleted = [Num 70], upload_result = Inr ()\<rparr>
               \<lparr>startupName = ''Acme Pay'', contactEmail = [],
                files = [\<lparr>file_name = ''plan.pdf'', file_type = ''application/pdf'', file_size = 10\<rparr>],
                uploading = False, progress = Num 0\<rparr>))
     = [AxiosPost ''http://localhost:8001/api/assessments'' (Json \<lparr>startup_name = ''Acme Pay'', contact_email = None\<rparr>),
        AxiosPost ''http://localhost:8001/api/assessments/a1/upload''
          (FormData [(''files'', \<lparr>file_name = ''plan.pdf'', file_type = ''application/pdf'', file_size = 10\<rparr>)]),
        NavigateAfter 500 ''/results/a1'']"
proof -
  have named: "trim ''Acme Pay'' \<noteq> []"
    by (simp add: trim_def isWhiteSpace_def)
  show ?thesis
    using named
      handleSubmit_call_sequence
        [of "\<lparr>startupName = ''Acme Pay'', contactEmail = [],
              files = [\<lparr>file_name = ''plan.pdf'', file_type = ''application/pdf'', file_size = 10\<rparr>],
              uploading = False, progress = Num 0\<rparr>"
            "Some ''http://localhost:8001''" "Inr ''a1''"
            "\<lparr>percentCompleted = [Num 70], upload_result = Inr ()\<rparr>"]
    by (simp add: API_def)
qed

text \<open>
  Claim C3. If the startup name is empty after trimming, or the pending-file list is empty,
  \<open>handleSubmit\<close> only shows an error message: it makes no network request (no assessment
  is created, no upload attempted) and leaves the form state as it was.
\<close>

theorem handleSubmit_rejects_invalid_form:
  assumes "trim (startupName st) = [] \<or> files st = []"
  shows "snd (handleSubmit BACKEND_URL create_reply upload_reply st) =
           [PreventDefault,
            ToastError (if trim (startupName st) = [] then ''Please enter your startup name''
                        else ''Please upload at least one document'')]
         \<and> filter is_request (snd (handleSubmit BACKEND_URL create_reply upload_reply st)) = []
         \<and> fst (handleSubmit BACKEND_URL create_reply upload_reply st) = st"
  using assms by (auto simp: handleSubmit_def)

theorem handleSubmit_rejects_invalid_form_witness:
  "trim '' '' = []
   \<and> snd (handleSubmit (Some ''http://localhost:8001'') (Inr ''a1'') \<lparr>percentCompleted = [], upload_result = Inr ()\<rparr>
            \<lparr>startupName = '' '', contactEmail = [],
             files = [\<lparr>file_name = ''plan.pdf'', file_type = ''application/pdf'', file_size = 10\<rparr>],
             uploading = False, progress = Num 0\<rparr>)
     = [PreventDefault, ToastError ''Please enter your startup name'']
   \<and> snd (handleSubmit (Some ''http://localhost:8001'') (Inr ''a1'') \<lparr>percentCompleted = [], upload_result = Inr ()\<rparr>
            \<lparr>startupName = ''Acme Pay'', contactEmail = [], files = [],
             uploading = False, progress = Num 0\<rparr>)
     = [PreventDefault, ToastError ''Please upload at least one document'']"
proof -
  have blank: "trim '' '' = []"
    by (simp add: trim_def isWhiteSpace_def)
  have named: "trim ''Acme Pay'' \<noteq> []"
    by (simp add: trim_def isWhiteSpace_def)
  show ?thesis
    using blank named
      handleSubmit_rejects_invalid_form
        [of "\<lparr>startupName = '' '', contactEmail = [],
              files = [\<lparr>file_name = ''plan.pdf'', file_type = ''application/pdf'', file_size = 10\<rparr>],
              uploading = False, progress = Num 0\<rparr>"
            "Some ''http://localhost:8001''" "Inr ''a1''" "\<lparr>percentCompleted = [], upload_result = Inr ()\<rparr>"]
      handleSubmit_rejects_invalid_form
        [of "\<lparr>startupName = ''Acme Pay'', contactEmail = [], files = [],
              uploading = False, progress = Num 0\<rparr>"
            "Some ''http://localhost:8001''" "Inr ''a1''" "\<lparr>percentCompleted = [], upload_result = Inr ()\<rparr>"]
    by (simp add: API_def)
qed

text \<open>
  Claim C10. If the creation call fails, or the upload call made after it fails, the form
  ends with \<open>uploading\<close> false and \<open>progress\<close> 0, whatever progress events came before the
  failure; the startup name, the contact email and the pending-file list are as before the
  submission, and no navigation happens.
\<close>

theorem handleSubmit_failure_resets_form:
  assumes "trim (startupName st) \<noteq> []" and "files st \<noteq> []"
    and "isl create_reply \<or> isl (upload_result upload_reply)"
  shows "fst (handleSubmit BACKEND_URL create_reply upload_reply st) = st\<lparr>uploading := False, progress := Num 0\<rparr>
         \<and> filter is_navigation (snd (handleSubmit BACKEND_URL create_reply upload_reply st)) = []"
proof (cases create_reply)
  case (Inl error)
  with assms(1,2) show ?thesis
    by (simp add: handleSubmit_def catch_block_def Let_def)
next
  case (Inr assessmentId)
  with assms(3) obtain error where failed: "upload_result upload_reply = Inl error"
    by (cases "upload_result upload_reply") auto
  obtain p where
    "fold (\<lambda>percent s. s\<lparr>progress := percent\<rparr>)
       (percentCompleted upload_reply) (st\<lparr>uploading := True, progress := Num 50\<rparr>)
     = st\<lparr>uploading := True, progress := Num 50\<rparr>\<lparr>progress := p\<rparr>"
    using fold_progress [of "\<lambda>percent. percent"] by blast
  with assms(1,2) Inr failed show ?thesis
    by (simp add: handleSubmit_def catch_block_def Let_def)
qed

theorem handleSubmit_failure_resets_form_witness:
  "trim ''Acme Pay'' \<noteq> []
   \<and> fst (handleSubmit (Some ''http://localhost:8001'') (Inr ''a1'')
            \<lparr>percentCompleted = [Num 70],
             upload_result = Inl (AxiosError None)\<rparr>
            \<lparr>startupName = ''Acme Pay'', contactEmail = ''a@b.c'',
             files = [\<lparr>file_name = ''plan.pdf'', file_type = ''application/pdf'', file_size = 10\<rparr>],
             uploading = False, progress = Num 0\<rparr>)
     = \<lparr>startupName = ''Acme Pay'', contactEmail = ''a@b.c'',
        files = [\<lparr>file_name = ''plan.pdf'', file_type = ''application/pdf'', file_size = 10\<rparr>],
        uploading = False, progress = Num 0\<rparr>
   \<and> filter is_navigation
       (snd (handleSubmit (Some ''http://localhost:8001'') (Inr ''a1'')
            \<lparr>percentCompleted = [Num 70],
             upload_result = Inl (AxiosError None)\<rparr>
            \<lparr>startupName = ''Acme Pay'', contactEmail = ''a@b.c'',
             files = [\<lparr>file_name = ''plan.pdf'', file_type = ''application/pdf'', file_size = 10\<rparr>],
             uploading = False, progress = Num 0\<rparr>)) = []"
proof -
  have named: "trim ''Acme Pay'' \<noteq> []"
    by (simp add: trim_def isWhiteSpace_def)
  show ?thesis
    using named
      handleSubmit_failure_resets_form
        [of "\<lparr>startupName = ''Acme Pay'', contactEmail = ''a@b.c'',
              files = [\<lparr>file_name = ''plan.pdf'', file_type = ''application/pdf'', file_size = 10\<rparr>],
              uploading = False, progress = Num 0\<rparr>"
            "Inr ''a1''"
            "\<lparr>percentCompleted = [Num 70],
              upload_result = Inl (AxiosError None)\<rparr>"
            "Some ''http://localhost:8001''"]
    by (simp add: API_def)
qed

section \<open>Error details\<close>

text \<open>
  Claim C4, as the code has it. When the creation call or the upload call of a submission
  fails with an error response that carries a non-empty \<open>detail\<close> string, the one error
  message shown is that string, verbatim; when the detail is missing or empty the message
  is "Failed to process documents".
\<close>

theorem handleSubmit_surfaces_detail:
  assumes "trim (startupName st) \<noteq> []" and "files st \<noteq> []"
    and "create_reply = Inl error
         \<or> (\<exists>assessmentId. create_reply = Inr assessmentId
               \<and> upload_result upload_reply = Inl error)"
  shows "filter is_error_toast (snd (handleSubmit BACKEND_URL create_reply upload_reply st)) =
           [ToastError (case error_detail error of
                          None \<Rightarrow> ''Failed to process documents''
                        | Some d \<Rightarrow> if d = [] then ''Failed to process documents'' else d)]"
  using assms
  by (auto simp: handleSubmit_def catch_block_def Let_def or_else_def split: option.splits)

theorem handleSubmit_surfaces_detail_witness:
  "trim ''Acme Pay'' \<noteq> []
   \<and> filter is_error_toast
       (snd (handleSubmit (Some ''http://localhost:8001'') (Inr ''a1'')
               \<lparr>percentCompleted = [],
                upload_result = Inl (AxiosError (Some (ErrorResponse (Some (ErrorData
                  (Some ''No valid documents were processed''))))))\<rparr>
               \<lparr>startupName = ''Acme Pay'', contactEmail = [],
                files = [\<lparr>file_name = ''plan.pdf'', file_type = ''application/pdf'', file_size = 10\<rparr>],
                uploading = False, progress = Num 0\<rparr>))
     = [ToastError ''No valid documents were processed'']"
proof -
  have named: "trim ''Acme Pay'' \<noteq> []"
    by (simp add: trim_def isWhiteSpace_def)
  show ?thesis
    using named
      handleSubmit_surfaces_detail
        [of "\<lparr>startupName = ''Acme Pay'', contactEmail = [],
              files = [\<lparr>file_name = ''plan.pdf'', file_type = ''application/pdf'', file_size = 10\<rparr>],
              uploading = False, progress = Num 0\<rparr>"
            "Inr ''a1''"
            "AxiosError (Some (ErrorResponse (Some (ErrorData
               (Some ''No valid documents were processed'')))))"
            "\<lparr>percentCompleted = [],
              upload_result = Inl (AxiosError (Some (ErrorResponse (Some (ErrorData
                (Some ''No valid documents were processed''))))))\<rparr>"
            "Some ''http://localhost:8001''"]
    by (simp add: error_detail_def)
qed

text \<open>A failed read of an assessment shows the same fixed message whatever the error carries.\<close>

lemma fetchResults_never_reads_detail:
  "filter is_error_toast (snd (fetchResults BACKEND_URL assessmentId (Inl error) st)) =
     [ToastError ''Failed to load assessment results'']"
  by (simp add: fetchResults_def)

text \<open>
  Two error responses whose \<open>detail\<close> string is not what the user is shown. A read of an
  assessment that fails with detail "Assessment not found" shows "Failed to load assessment
  results", and the page turns to its not-found card. An upload that fails with the empty
  string as detail shows "Failed to process documents".
\<close>

theorem detail_not_shown_examples:
  "snd (fetchResults (Some ''http://localhost:8001'') ''a1''
          (Inl (AxiosError (Some (ErrorResponse (Some (ErrorData (Some ''Assessment not found'')))))))
          initial_results_state)
     = [AxiosGet ''http://localhost:8001/api/assessments/a1'', ConsoleError ''Error fetching results:'',
        ToastError ''Failed to load assessment results'']
   \<and> render (fst (fetchResults (Some ''http://localhost:8001'') ''a1''
          (Inl (AxiosError (Some (ErrorResponse (Some (ErrorData (Some ''Assessment not found'')))))))
          initial_results_state)) = Inr NotFoundView
   \<and> filter is_error_toast
       (snd (handleSubmit (Some ''http://localhost:8001'') (Inr ''a1'')
               \<lparr>percentCompleted = [],
                upload_result = Inl (AxiosError (Some (ErrorResponse (Some (ErrorData (Some []))))))\<rparr>
               \<lparr>startupName = ''Acme Pay'', contactEmail = [],
                files = [\<lparr>file_name = ''plan.pdf'', file_type = ''application/pdf'', file_size = 10\<rparr>],
                uploading = False, progress = Num 0\<rparr>))
     = [ToastError ''Failed to process documents'']"
  by (simp add: fetchResults_def initial_results_state_def render_def API_def handleSubmit_def
      catch_block_def error_detail_def or_else_def trim_def isWhiteSpace_def)

section \<open>The results screen\<close>

text \<open>
  The colour bucket of a score value is a monotonic step function with cut points at 75
  and 50: a value is in the top bucket (green) iff it is \<open>>= 75\<close>, in the middle bucket
  (yellow) iff it is \<open>>= 50\<close> and not \<open>>= 75\<close>, and in the bottom bucket (red) otherwise,
  which is where \<open>NaN\<close> falls; on finite values a larger score never falls in a lower bucket.
\<close>

lemma getScoreColor_step_function:
  "(getScoreColor v = ''text-green-600'' \<longleftrightarrow> js_ge v 75)
   \<and> (getScoreColor v = ''text-yellow-600'' \<longleftrightarrow> js_ge v 50 \<and> \<not> js_ge v 75)
   \<and> (getScoreColor v = ''text-red-600'' \<longleftrightarrow> \<not> js_ge v 50)
   \<and> (getScoreColor (Num x) = ''text-green-600'' \<longleftrightarrow> 75 \<le> x)
   \<and> (getScoreColor (Num x) = ''text-yellow-600'' \<longleftrightarrow> 50 \<le> x \<and> x < 75)
   \<and> (getScoreColor (Num x) = ''text-red-600'' \<longleftrightarrow> x < 50)
   \<and> (x \<le> y \<longrightarrow>
        (getScoreColor (Num x) = ''text-green-600'' \<longrightarrow> getScoreColor (Num y) = ''text-green-600'')
        \<and> (getScoreColor (Num y) = ''text-red-600'' \<longrightarrow> getScoreColor (Num x) = ''text-red-600''))"
proof -
  have ordered: "js_ge v 50" if "js_ge v 75"
    using that by (cases v) auto
  have general: "(getScoreColor v = ''text-green-600'' \<longleftrightarrow> js_ge v 75)
      \<and> (getScoreColor v = ''text-yellow-600'' \<longleftrightarrow> js_ge v 50 \<and> \<not> js_ge v 75)
      \<and> (getScoreColor v = ''text-red-600'' \<longleftrightarrow> \<not> js_ge v 50)"
    using ordered by (auto simp: getScoreColor_def)
  have finite: "(getScoreColor (Num z) = ''text-green-600'' \<longleftrightarrow> 75 \<le> z)
      \<and> (getScoreColor (Num z) = ''text-yellow-600'' \<longleftrightarrow> 50 \<le> z \<and> z < 75)
      \<and> (getScoreColor (Num z) = ''text-red-600'' \<longleftrightarrow> z < 50)" for z
    by (auto simp: getScoreColor_def)
  have monotone: "(getScoreColor (Num x) = ''text-green-600'' \<longrightarrow> getScoreColor (Num y) = ''text-green-600'')
      \<and> (getScoreColor (Num y) = ''text-red-600'' \<longrightarrow> getScoreColor (Num x) = ''text-red-600'')"
    if "x \<le> y"
    using that finite [of x] finite [of y] by auto
  from general finite [of x] monotone show ?thesis by blast
qed

text \<open>A card list renders when each of its cards does.\<close>

lemma map_cards_succeeds:
  "(\<And>x. x \<in> set xs \<Longrightarrow> \<exists>c. item_card x = Inr c) \<Longrightarrow> \<exists>cs. map_cards item_card xs = Inr cs"
proof (induction xs)
  case Nil
  show ?case by simp
next
  case (Cons x xs)
  from Cons.prems obtain c where "item_card x = Inr c"
    by fastforce
  moreover from Cons obtain cs where "map_cards item_card xs = Inr cs"
    by fastforce
  ultimately show ?case by simp
qed

lemma render_section_succeeds:
  assumes "\<And>x. x \<in> set (case xs of None \<Rightarrow> [] | Some items \<Rightarrow> items) \<Longrightarrow> \<exists>c. item_card x = Inr c"
  shows "\<exists>part. render_section item_card xs = Inr part
           \<and> (part = None \<longleftrightarrow> xs = None \<or> xs = Some [])"
proof (cases xs)
  case None
  then show ?thesis by (simp add: render_section_def)
next
  case (Some items)
  with assms have "\<exists>cs. map_cards item_card items = Inr cs"
    by (intro map_cards_succeeds) simp
  then obtain cs where "map_cards item_card items = Inr cs" ..
  with Some show ?thesis by (auto simp: render_section_def)
qed

text \<open>An empty or missing list never makes its own section fail.\<close>

lemma render_section_empty:
  "xs = None \<or> xs = Some [] \<Longrightarrow> render_section item_card xs = Inr None"
  by (auto simp: render_section_def)

text \<open>
  Claim C6, as the code has it. For every loaded assessment whose score (with its
  category scores), gap list and recommendations object are present, and whose listed
  experts and programs carry their \<open>relevant_articles\<close> and \<open>focus_areas\<close>, the page renders
  the report without failure; the gaps tab shows the "no compliance gaps detected" success
  state exactly when the gap list is empty, and the experts (programs) section of the
  recommendations tab is left out exactly when the experts (programs) list is missing or
  empty.
\<close>

theorem render_handles_empty_sequences:
  assumes "\<not> loading st" and "result st = Some r"
    and "assessment_score r = Some sc" and "category_scores sc = Some entries"
    and "gaps r = Some gs" and "assessment_recommendations r = Some recs"
    and "\<forall>e \<in> set (case experts recs of None \<Rightarrow> [] | Some es \<Rightarrow> es). relevant_articles e \<noteq> None"
    and "\<forall>p \<in> set (case programs recs of None \<Rightarrow> [] | Some ps \<Rightarrow> ps). focus_areas p \<noteq> None"
  shows "\<exists>rep. render st = Inr (ReportView rep)
           \<and> (gaps_tab rep = NoGapsDetected \<longleftrightarrow> gs = [])
           \<and> (experts_section (recommendations_tab rep) = None \<longleftrightarrow>
                experts recs = None \<or> experts recs = Some [])
           \<and> (programs_section (recommendations_tab rep) = None \<longleftrightarrow>
                programs recs = None \<or> programs recs = Some [])"
proof -
  have "\<exists>c. render_expert e = Inr c"
    if "e \<in> set (case experts recs of None \<Rightarrow> [] | Some es \<Rightarrow> es)" for e
    using that assms(7) by (auto simp: render_expert_def split: option.splits)
  then obtain experts_part where experts_ok:
    "render_section render_expert (experts recs) = Inr experts_part"
    "experts_part = None \<longleftrightarrow> experts recs = None \<or> experts recs = Some []"
    using render_section_succeeds [of "experts recs" render_expert] by blast
  have "\<exists>c. render_program p = Inr c"
    if "p \<in> set (case programs recs of None \<Rightarrow> [] | Some ps \<Rightarrow> ps)" for p
    using that assms(8) by (auto simp: render_program_def split: option.splits)
  then obtain programs_part where programs_ok:
    "render_section render_program (programs recs) = Inr programs_part"
    "programs_part = None \<longleftrightarrow> programs recs = None \<or> programs recs = Some []"
    using render_section_succeeds [of "programs recs" render_program] by blast
  have gaps_none: "render_gaps_tab gs = NoGapsDetected \<longleftrightarrow> gs = []"
    by (simp add: render_gaps_tab_def)
  from assms(1-6) experts_ok programs_ok gaps_none show ?thesis
    by (simp add: render_def render_recommendations_tab_def)
qed

theorem render_handles_empty_sequences_witness:
  "render \<lparr>loading = False,
           result = Some \<lparr>assessment_startup_name = ''Acme Pay'',
             assessment_score = Some \<lparr>total_gaps = 0, high_severity_gaps = 0, medium_severity_gaps = 0,
               low_severity_gaps = 0, overall_score = Num 100, readiness_level = ''Ready'',
               category_scores = Some [(''Capital'', Num 100)]\<rparr>,
             gaps = Some [],
             assessment_recommendations = Some \<lparr>experts = None, programs = Some []\<rparr>\<rparr>\<rparr>
   = Inr (ReportView \<lparr>heading = ''Acme Pay'', overall_class = ''text-green-600'',
       overall_text = Num 100, readiness_badge = ''Ready'',
       category_rows = [(''Capital'', ''text-green-600'', Num 100)],
       gaps_summary = \<lparr>total_gaps = 0, high_severity_gaps = 0, medium_severity_gaps = 0,
         low_severity_gaps = 0\<rparr>,
       gaps_tab = NoGapsDetected,
       recommendations_tab = \<lparr>experts_section = None, programs_section = None\<rparr>\<rparr>)"
  using render_handles_empty_sequences
    [of "\<lparr>loading = False,
           result = Some \<lparr>assessment_startup_name = ''Acme Pay'',
             assessment_score = Some \<lparr>total_gaps = 0, high_severity_gaps = 0, medium_severity_gaps = 0,
               low_severity_gaps = 0, overall_score = Num 100, readiness_level = ''Ready'',
               category_scores = Some [(''Capital'', Num 100)]\<rparr>,
             gaps = Some [],
             assessment_recommendations = Some \<lparr>experts = None, programs = Some []\<rparr>\<rparr>\<rparr>"]
  by (simp add: render_def getScoreColor_def render_gaps_tab_def render_recommendations_tab_def
      render_section_def gap_counts.truncate_def gap_counts.defs score.defs)

text \<open>
  Replies with an empty gap list, or a missing experts or programs list, on which the page
  throws instead of rendering: a pending assessment (no score, no recommendations); a reply
  without recommendations; one without category scores; one without a gap list; one whose
  only program has no \<open>focus_areas\<close>; one whose only expert has no \<open>relevant_articles\<close>.
\<close>

theorem render_throws_on_incomplete_assessment:
  "render \<lparr>loading = False,
           result = Some \<lparr>assessment_startup_name = ''Acme Pay'',
             assessment_score = None,
             gaps = Some [],
             assessment_recommendations = None\<rparr>\<rparr> = Inl TypeError
   \<and> render \<lparr>loading = False,
           result = Some \<lparr>assessment_startup_name = ''Acme Pay'',
             assessment_score = Some \<lparr>total_gaps = 0, high_severity_gaps = 0, medium_severity_gaps = 0,
               low_severity_gaps = 0, overall_score = Num 100, readiness_level = ''Ready'',
               category_scores = Some [(''Capital'', Num 100)]\<rparr>,
             gaps = Some [],
             assessment_recommendations = None\<rparr>\<rparr> = Inl TypeError
   \<and> render \<lparr>loading = False,
           result = Some \<lparr>assessment_startup_name = ''Acme Pay'',
             assessment_score = Some \<lparr>total_gaps = 0, high_severity_gaps = 0, medium_severity_gaps = 0,
               low_severity_gaps = 0, overall_score = Num 100, readiness_level = ''Ready'',
               category_scores = None\<rparr>,
             gaps = Some [],
             assessment_recommendations = Some \<lparr>experts = None, programs = Some []\<rparr>\<rparr>\<rparr> = Inl TypeError
   \<and> render \<lparr>loading = False,
           result = Some \<lparr>assessment_startup_name = ''Acme Pay'',
             assessment_score = Some \<lparr>total_gaps = 0, high_severity_gaps = 0, medium_severity_gaps = 0,
               low_severity_gaps = 0, overall_score = Num 100, readiness_level = ''Ready'',
               category_scores = Some [(''Capital'', Num 100)]\<rparr>,
             gaps = None,
             assessment_recommendations = Some \<lparr>experts = None, programs = Some []\<rparr>\<rparr>\<rparr> = Inl TypeError
   \<and> render \<lparr>loading = False,
           result = Some \<lparr>assessment_startup_name = ''Acme Pay'',
             assessment_score = Some \<lparr>total_gaps = 0, high_severity_gaps = 0, medium_severity_gaps = 0,
               low_severity_gaps = 0, overall_score = Num 100, readiness_level = ''Ready'',
               category_scores = Some [(''Capital'', Num 100)]\<rparr>,
             gaps = Some [],
             assessment_recommendations = Some \<lparr>experts = None,
               programs = Some [\<lparr>program_name = ''Fintech Incubator'', program_description = ''Mentoring'',
                 duration = ''6 months'', focus_areas = None, website = ''N/A''\<rparr>]\<rparr>\<rparr>\<rparr> = Inl TypeError
   \<and> render \<lparr>loading = False,
           result = Some \<lparr>assessment_startup_name = ''Acme Pay'',
             assessment_score = Some \<lparr>total_gaps = 0, high_severity_gaps = 0, medium_severity_gaps = 0,
               low_severity_gaps = 0, overall_score = Num 100, readiness_level = ''Ready'',
               category_scores = Some [(''Capital'', Num 100)]\<rparr>,
             gaps = Some [],
             assessment_recommendations = Some \<lparr>experts = Some [\<lparr>expert_name = ''A. Expert'', specialization = ''AML'',
                 contact = ''expert@example.com'', relevant_articles = None\<rparr>],
               programs = None\<rparr>\<rparr>\<rparr> = Inl TypeError"
  by (simp add: render_def render_recommendations_tab_def render_section_def render_expert_def
      render_program_def)

text \<open>The gaps summary card shows the four counts of the score record as they were received.\<close>

lemma render_shows_counts_as_received:
  "render \<lparr>loading = False, result = Some r\<rparr> = Inr (ReportView rep) \<Longrightarrow>
     assessment_score r = Some sc \<Longrightarrow>
     total_gaps (gaps_summary rep) = total_gaps sc
     \<and> high_severity_gaps (gaps_summary rep) = high_severity_gaps sc
     \<and> medium_severity_gaps (gaps_summary rep) = medium_severity_gaps sc
     \<and> low_severity_gaps (gaps_summary rep) = low_severity_gaps sc"
  by (auto simp: render_def gap_counts.truncate_def split: option.splits sum.splits)

section \<open>The gap counts sum to the total\<close>

lemma count_severity_partition:
  "length gs = count_severity HIGH gs + count_severity MEDIUM gs + count_severity LOW gs"
proof (induction gs)
  case Nil
  show ?case by (simp add: count_severity_def)
next
  case (Cons g gs)
  then show ?case
    by (cases "gap_severity g") (simp_all add: count_severity_def)
qed

text \<open>
  Claim C8. For every catalog, every verdict set and every way of choosing severities, the
  gap counts of the score record satisfy
  \<open>total_gaps = high_severity_gaps + medium_severity_gaps + low_severity_gaps\<close>.
\<close>

theorem score_gap_counts_sum:
  "total_gaps (score_gap_counts (gap_detector severity_of catalog verdicts)) =
     high_severity_gaps (score_gap_counts (gap_detector severity_of catalog verdicts))
     + medium_severity_gaps (score_gap_counts (gap_detector severity_of catalog verdicts))
     + low_severity_gaps (score_gap_counts (gap_detector severity_of catalog verdicts))"
  using count_severity_partition [of "gap_detector severity_of catalog verdicts"]
  by (simp add: score_gap_counts_def)

theorem score_gap_counts_sum_witness:
  "score_gap_counts (gap_detector (\<lambda>c a. if c = absent then HIGH else LOW)
     [\<lparr>article_id = ''1.1'', article_category = ''Capital'', article_requirement = ''capital''\<rparr>,
      \<lparr>article_id = ''2.1'', article_category = ''AML'', article_requirement = ''kyc''\<rparr>,
      \<lparr>article_id = ''3.1'', article_category = ''Governance'', article_requirement = ''board''\<rparr>]
     [\<lparr>verdict_article = ''1.1'', verdict_coverage = absent, evidence = None\<rparr>,
      \<lparr>verdict_article = ''2.1'', verdict_coverage = satisfied, evidence = Some ''kyc policy''\<rparr>,
      \<lparr>verdict_article = ''3.1'', verdict_coverage = partial, evidence = None\<rparr>])
   = \<lparr>total_gaps = 2, high_severity_gaps = 1, medium_severity_gaps = 0, low_severity_gaps = 1\<rparr>"
  using score_gap_counts_sum [of "\<lambda>c a. if c = absent then HIGH else LOW"
     "[\<lparr>article_id = ''1.1'', article_category = ''Capital'', article_requirement = ''capital''\<rparr>,
      \<lparr>article_id = ''2.1'', article_category = ''AML'', article_requirement = ''kyc''\<rparr>,
      \<lparr>article_id = ''3.1'', article_category = ''Governance'', article_requirement = ''board''\<rparr>]"
     "[\<lparr>verdict_article = ''1.1'', verdict_coverage = absent, evidence = None\<rparr>,
      \<lparr>verdict_article = ''2.1'', verdict_coverage = satisfied, evidence = Some ''kyc policy''\<rparr>,
      \<lparr>verdict_article = ''3.1'', verdict_coverage = partial, evidence = None\<rparr>]"]
  by (simp add: score_gap_counts_def gap_detector_def count_severity_def)

end
